theory Spec2Isabelle
  imports Complex_Main
begin

section \<open>Values and exceptions of the Python program\<close>

text \<open>
  The module \<^verbatim>\<open>firewall_rule.py\<close> works on whatever \<^verbatim>\<open>json.loads\<close> hands back, so
  the model starts from the value universe of parsed JSON. A Python \<^verbatim>\<open>dict\<close> is an
  association list whose first binding of a key is the one \<^verbatim>\<open>get\<close> finds; \<^verbatim>\<open>None\<close> and
  JSON \<^verbatim>\<open>null\<close> are the same value. Strings are lists of 8-bit characters, read
  as the code points 0 to 255 (the Latin-1 part of Python's text type). Floats are never inspected by the module, only
  copied, so their payload is kept opaque as a rational.
\<close>

datatype json =
    JNull
  | JBool bool
  | JInt int
  | JFloat rat
  | JStr string
  | JArr "json list"
  | JObj "(string \<times> json) list"

text \<open>
  The module defines no exception class of its own. Every failure is one of the
  interpreter's built-in exceptions, raised by the operation named in the constructor.
\<close>

datatype error =
    JSONDecodeError          \<comment> \<open>\<^verbatim>\<open>json.loads\<close> on text that is not JSON (a \<^verbatim>\<open>ValueError\<close>)\<close>
  | AttributeError string    \<comment> \<open>method of that name looked up on a value that lacks it\<close>
  | TypeErrorNotIterable     \<comment> \<open>\<^verbatim>\<open>for\<close> or \<^verbatim>\<open>in\<close> over \<^verbatim>\<open>None\<close>, a number or a boolean\<close>
  | TypeErrorIntArgument     \<comment> \<open>\<^verbatim>\<open>int()\<close> of a list or a dict\<close>
  | ValueErrorUnpack         \<comment> \<open>tuple unpacking of a list whose length is not 2\<close>
  | ValueErrorIntLiteral     \<comment> \<open>\<^verbatim>\<open>int()\<close> of a string that is no integer literal\<close>
  | IndexError               \<comment> \<open>list index out of range\<close>

type_synonym 'a result = "error + 'a"

definition bind_result :: "'a result \<Rightarrow> ('a \<Rightarrow> 'b result) \<Rightarrow> 'b result" where
  "bind_result r f = (case r of Inl e \<Rightarrow> Inl e | Inr x \<Rightarrow> f x)"

text \<open>A loop body run over a list in order; the first exception ends the loop.\<close>

fun map_result :: "('a \<Rightarrow> 'b result) \<Rightarrow> 'a list \<Rightarrow> 'b list result" where
  "map_result f [] = Inr []"
| "map_result f (x # xs) =
     (case f x of
        Inl e \<Rightarrow> Inl e
      | Inr y \<Rightarrow> (case map_result f xs of Inl e \<Rightarrow> Inl e | Inr ys \<Rightarrow> Inr (y # ys)))"

section \<open>Built-in operations the module calls\<close>

text \<open>\<^verbatim>\<open>d.get(k)\<close> and \<^verbatim>\<open>d.get(k, default)\<close> on a dict; \<^verbatim>\<open>k in d\<close>.\<close>

definition dict_get :: "(string \<times> json) list \<Rightarrow> string \<Rightarrow> json \<Rightarrow> json" where
  "dict_get d k dflt = (case map_of d k of None \<Rightarrow> dflt | Some v \<Rightarrow> v)"

definition dict_has :: "(string \<times> json) list \<Rightarrow> string \<Rightarrow> bool" where
  "dict_has d k = (map_of d k \<noteq> None)"

text \<open>
  What a \<^verbatim>\<open>for\<close> statement iterates: the elements of a list, the one-character
  strings of a string, the keys of a dict; anything else is not iterable.
\<close>

fun py_iter :: "json \<Rightarrow> json list result" where
  "py_iter (JArr xs) = Inr xs"
| "py_iter (JStr s) = Inr (map (\<lambda>c. JStr [c]) s)"
| "py_iter (JObj d) = Inr (map (\<lambda>kv. JStr (fst kv)) d)"
| "py_iter _ = Inl TypeErrorNotIterable"

text \<open>\<^verbatim>\<open>s.split(sep)\<close> for a one-character separator: one more part than separators.\<close>

fun split_on :: "char \<Rightarrow> string \<Rightarrow> string list" where
  "split_on sep [] = [[]]"
| "split_on sep (c # cs) =
     (if c = sep then [] # split_on sep cs
      else (case split_on sep cs of
              [] \<Rightarrow> [[c]]
            | p # ps \<Rightarrow> (c # p) # ps))"

text \<open>
  \<^verbatim>\<open>s.upper()\<close> of the interpreter (version 3), on the characters a string of this
  model can hold. The letters a to z and the accented letters of Latin-1 lose 32; the
  sharp s becomes two letters \<^verbatim>\<open>S\<close>; the micro sign and the y with diaeresis leave
  Latin-1. The result is therefore a list of code points, and the literal it is
  compared with is turned into its code points.
\<close>

definition code_points :: "string \<Rightarrow> nat list" where
  "code_points s = map of_char s"

definition upper_char :: "char \<Rightarrow> nat list" where
  "upper_char c =
     (let n = (of_char c :: nat)
      in if 97 \<le> n \<and> n \<le> 122 then [n - 32]
         else if n = 181 then [924]
         else if n = 223 then [83, 83]
         else if 224 \<le> n \<and> n \<le> 254 \<and> n \<noteq> 247 then [n - 32]
         else if n = 255 then [376]
         else [n])"

definition upper :: "string \<Rightarrow> nat list" where
  "upper s = concat (map upper_char s)"

text \<open>
  \<^verbatim>\<open>int(s)\<close> for a string: surrounding white space is dropped, one sign is allowed,
  and what remains must be decimal digits, where one underscore may stand between two
  digits. The result is unbounded; the interpreter's cap on the number of digits is a
  resource limit and is left out.
\<close>

definition is_space :: "char \<Rightarrow> bool" where
  "is_space c = ((of_char c :: nat) \<in> {9, 10, 11, 12, 13, 32, 133, 160})"

definition is_digit :: "char \<Rightarrow> bool" where
  "is_digit c = (48 \<le> (of_char c :: nat) \<and> (of_char c :: nat) \<le> 57)"

definition digit_val :: "char \<Rightarrow> int" where
  "digit_val c = int (of_char c) - 48"

definition dec_val :: "string \<Rightarrow> int" where
  "dec_val s = foldl (\<lambda>a c. 10 * a + digit_val c) 0 s"

definition strip :: "string \<Rightarrow> string" where
  "strip s = rev (dropWhile is_space (rev (dropWhile is_space s)))"

text \<open>A digit, then any number of digits each preceded by at most one underscore.\<close>

fun digit_groups :: "string \<Rightarrow> bool" where
  "digit_groups [] = False"
| "digit_groups [c] = is_digit c"
| "digit_groups (c # d # cs) =
     (is_digit c \<and> (if d = CHR ''_'' then digit_groups cs else digit_groups (d # cs)))"

definition digits_int :: "string \<Rightarrow> int result" where
  "digits_int ds =
     (if digit_groups ds then Inr (dec_val (filter is_digit ds)) else Inl ValueErrorIntLiteral)"

definition py_int :: "string \<Rightarrow> int result" where
  "py_int s =
     (case strip s of
        [] \<Rightarrow> Inl ValueErrorIntLiteral
      | c # cs \<Rightarrow>
          if c = CHR ''+'' then digits_int cs
          else if c = CHR ''-'' then bind_result (digits_int cs) (\<lambda>n. Inr (- n))
          else digits_int (c # cs))"

section \<open>The port range expander: \<^verbatim>\<open>FirewallRule._flatten_ports\<close>\<close>

text \<open>
  One turn of the loop over \<^verbatim>\<open>ports\<close>: the integers this element adds to
  \<^verbatim>\<open>flattened_ports\<close>; \<^verbatim>\<open>range(start, end+1)\<close> is the inclusive interval \<open>[start .. stop]\<close>,
  empty when \<open>stop < start\<close>. The test \<^verbatim>\<open>'-' in port\<close> is a substring test on a string, a
  membership test on a list and a key test on a dict, and raises on anything else.
\<close>

fun expand_port :: "json \<Rightarrow> int list result" where
  "expand_port (JStr port) =
     (if CHR ''-'' \<in> set port then
        (case split_on CHR ''-'' port of
           a # b # _ \<Rightarrow>
             bind_result (py_int a) (\<lambda>start.
             bind_result (py_int b) (\<lambda>stop.
               Inr [start .. stop]))
         | _ \<Rightarrow> Inl IndexError)
      else bind_result (py_int port) (\<lambda>n. Inr [n]))"
| "expand_port (JArr xs) =
     (if JStr ''-'' \<in> set xs then Inl (AttributeError ''split'') else Inl TypeErrorIntArgument)"
| "expand_port (JObj d) =
     (if dict_has d ''-'' then Inl (AttributeError ''split'') else Inl TypeErrorIntArgument)"
| "expand_port _ = Inl TypeErrorNotIterable"

text \<open>
  \<^verbatim>\<open>list(set(flattened_ports))\<close> keeps one copy of every element, in an order the
  interpreter's set layout fixes; the model keeps them in the order \<open>remdups\<close> leaves,
  and no statement below depends on that order.
\<close>

definition flatten_ports :: "json \<Rightarrow> int list result" where
  "flatten_ports ports =
     bind_result (py_iter ports) (\<lambda>items.
     bind_result (map_result expand_port items) (\<lambda>chunks.
       Inr (remdups (concat chunks))))"

section \<open>The rule flattener: \<^verbatim>\<open>FirewallRule.from_json\<close>\<close>

text \<open>The field \<^verbatim>\<open>identifier\<close> is \<open>rule_identifier\<close> here, the plain word being reserved.\<close>

record FirewallRule =
  creation_timestamp :: json
  priority :: json
  ip_addr :: string
  ip_bits :: string
  rule_identifier :: json
  action :: string
  ip_protocol :: json
  ports :: "int list"
  direction :: string
  disabled :: bool

text \<open>Lines 103 to 106: the action is \<^verbatim>\<open>'allowed'\<close> when that key is there, else \<^verbatim>\<open>'denied'\<close>.\<close>

definition select_action :: "(string \<times> json) list \<Rightarrow> string" where
  "select_action d = (if \<not> dict_has d ''allowed'' then ''denied'' else ''allowed'')"

text \<open>Lines 108 to 113.\<close>

definition select_identifiers :: "(string \<times> json) list \<Rightarrow> json" where
  "select_identifiers d =
     (if dict_has d ''targetServiceAccounts'' then dict_get d ''targetServiceAccounts'' (JArr [])
      else if dict_has d ''targetTags'' then dict_get d ''targetTags'' (JArr [])
      else JArr [])"

text \<open>Lines 117 to 120, for a direction that has an \<^verbatim>\<open>upper\<close> method.\<close>

definition select_ranges :: "(string \<times> json) list \<Rightarrow> string \<Rightarrow> json" where
  "select_ranges d dir =
     (if upper dir = code_points ''INGRESS'' then dict_get d ''sourceRanges'' JNull
      else dict_get d ''destinationRanges'' JNull)"

text \<open>Line 122: the comprehension splits every element in turn.\<close>

fun split_cidr :: "json \<Rightarrow> string list result" where
  "split_cidr (JStr s) = Inr (split_on CHR ''/'' s)"
| "split_cidr _ = Inl (AttributeError ''split'')"

text \<open>Line 130.\<close>

definition select_disabled :: "(string \<times> json) list \<Rightarrow> bool" where
  "select_disabled d = (if dict_get d ''disabled'' JNull = JStr ''false'' then False else True)"

text \<open>
  The values fixed before the loops start, and the three loops from the innermost
  outwards. Lines 134 to 152 are \<open>mapping_rules\<close> for one permission entry, lines 133 to
  152 \<open>pair_rules\<close> for one split CIDR entry (unpacked into two names on entry), lines
  132 to 152 \<open>identifier_rules\<close> for one identifier.
\<close>

record loop_env =
  env_creation_timestamp :: json
  env_priority :: json
  env_action :: string
  env_direction :: string
  env_disabled :: bool
  env_protocol_mappings :: json

definition make_rule ::
    "loop_env \<Rightarrow> json \<Rightarrow> string \<Rightarrow> string \<Rightarrow> int list \<Rightarrow> json \<Rightarrow> FirewallRule" where
  "make_rule env ident addr bits flattened proto =
     \<lparr> creation_timestamp = env_creation_timestamp env,
       priority = env_priority env,
       ip_addr = addr,
       ip_bits = bits,
       rule_identifier = ident,
       action = env_action env,
       ip_protocol = proto,
       ports = flattened,
       direction = env_direction env,
       disabled = env_disabled env \<rparr>"

fun mapping_rules ::
    "loop_env \<Rightarrow> json \<Rightarrow> string \<Rightarrow> string \<Rightarrow> json \<Rightarrow> FirewallRule list result" where
  "mapping_rules env ident addr bits (JObj m) =
     (let ip_protocols = dict_get m ''IPProtocol'' (JArr []);
          corresponding_ports = dict_get m ''ports'' (JArr [])
      in bind_result (flatten_ports corresponding_ports) (\<lambda>flattened.
         bind_result (py_iter ip_protocols) (\<lambda>protos.
           Inr (map (make_rule env ident addr bits flattened) protos))))"
| "mapping_rules env ident addr bits _ = Inl (AttributeError ''get'')"

fun pair_rules :: "loop_env \<Rightarrow> json \<Rightarrow> string list \<Rightarrow> FirewallRule list result" where
  "pair_rules env ident [addr, bits] =
     bind_result (py_iter (env_protocol_mappings env)) (\<lambda>mappings.
     bind_result (map_result (mapping_rules env ident addr bits) mappings) (\<lambda>rss.
       Inr (concat rss)))"
| "pair_rules env ident _ = Inl ValueErrorUnpack"

definition identifier_rules ::
    "loop_env \<Rightarrow> string list list \<Rightarrow> json \<Rightarrow> FirewallRule list result" where
  "identifier_rules env ip_addr_bits_list ident =
     bind_result (map_result (pair_rules env ident) ip_addr_bits_list) (\<lambda>rss.
       Inr (concat rss))"

text \<open>
  Lines 103 to 106, 124 and 128 to 130: the values every record shares. None of these
  reads can raise on a dict.
\<close>

definition initial_env :: "(string \<times> json) list \<Rightarrow> string \<Rightarrow> loop_env" where
  "initial_env d dir =
     \<lparr> env_creation_timestamp = dict_get d ''creationTimestamp'' JNull,
       env_priority = dict_get d ''priority'' JNull,
       env_action = select_action d,
       env_direction = dir,
       env_disabled = select_disabled d,
       env_protocol_mappings = dict_get d (select_action d) (JArr []) \<rparr>"

text \<open>
  \<^verbatim>\<open>from_json\<close> once \<^verbatim>\<open>json.loads\<close> has returned a dict. The order of the failures
  is the order of the statements: the \<^verbatim>\<open>upper\<close> call of line 117, the comprehension of
  line 122, then the loops.
\<close>

definition from_json_dict :: "(string \<times> json) list \<Rightarrow> FirewallRule list result" where
  "from_json_dict d =
     (case dict_get d ''direction'' JNull of
        JStr dir \<Rightarrow>
          bind_result (py_iter (select_ranges d dir)) (\<lambda>ip_addrs_cidr.
          bind_result (map_result split_cidr ip_addrs_cidr) (\<lambda>ip_addr_bits_list.
          bind_result (py_iter (select_identifiers d)) (\<lambda>identifiers.
          bind_result (map_result (identifier_rules (initial_env d dir) ip_addr_bits_list)
                         identifiers) (\<lambda>rss.
            Inr (concat rss)))))
      | _ \<Rightarrow> Inl (AttributeError ''upper''))"

text \<open>
  \<^verbatim>\<open>from_json\<close> on any parsed value. A list or a string passes the \<^verbatim>\<open>in\<close> tests of
  lines 105 to 112 and fails at the first \<^verbatim>\<open>get\<close>; \<^verbatim>\<open>None\<close>, numbers and booleans
  fail at line 105.
\<close>

fun from_json_value :: "json \<Rightarrow> FirewallRule list result" where
  "from_json_value (JObj d) = from_json_dict d"
| "from_json_value (JArr xs) = Inl (AttributeError ''get'')"
| "from_json_value (JStr s) = Inl (AttributeError ''get'')"
| "from_json_value _ = Inl TypeErrorNotIterable"

text \<open>
  \<^verbatim>\<open>from_json\<close> on text. The parser \<^verbatim>\<open>json.loads\<close> belongs to the standard library, not
  to this module, and is a parameter: it returns \<open>None\<close> where the library raises.
\<close>

definition from_json :: "(string \<Rightarrow> json option) \<Rightarrow> string \<Rightarrow> FirewallRule list result" where
  "from_json loads firewall_rule_data =
     (case loads firewall_rule_data of
        None \<Rightarrow> Inl JSONDecodeError
      | Some json_dict \<Rightarrow> from_json_value json_dict)"

section \<open>Port specifications as the specification words them\<close>

text \<open>
  A valid port specification is a decimal integer literal, or two such literals joined
  by one hyphen with the first not above the second. A single value stands for itself,
  a range for every integer between its bounds, both included.
\<close>

datatype port_spec = SinglePort string | PortRange string string

definition is_decimal :: "string \<Rightarrow> bool" where
  "is_decimal s = (s \<noteq> [] \<and> list_all is_digit s)"

fun spec_text :: "port_spec \<Rightarrow> string" where
  "spec_text (SinglePort n) = n"
| "spec_text (PortRange a b) = a @ ''-'' @ b"

fun valid_port_spec :: "port_spec \<Rightarrow> bool" where
  "valid_port_spec (SinglePort n) = is_decimal n"
| "valid_port_spec (PortRange a b) = (is_decimal a \<and> is_decimal b \<and> dec_val a \<le> dec_val b)"

fun spec_ports :: "port_spec \<Rightarrow> int set" where
  "spec_ports (SinglePort n) = {dec_val n}"
| "spec_ports (PortRange a b) = {dec_val a .. dec_val b}"

text \<open>The integers a specification stands for, listed as the loop of the expander lists them.\<close>

definition range_of :: "port_spec \<Rightarrow> int list" where
  "range_of s = (case s of SinglePort n \<Rightarrow> [dec_val n] | PortRange a b \<Rightarrow> [dec_val a .. dec_val b])"

section \<open>Letters in either case\<close>

text \<open>
  What comparing without regard to case means for ASCII text: a character is the same
  letter as an upper-case letter when it is that letter or its lower-case form, 32
  code points above.
\<close>

definition is_ascii :: "char \<Rightarrow> bool" where
  "is_ascii c = ((of_char c :: nat) < 128)"

definition is_upper_letter :: "char \<Rightarrow> bool" where
  "is_upper_letter c = (65 \<le> (of_char c :: nat) \<and> (of_char c :: nat) \<le> 90)"

definition same_letter :: "char \<Rightarrow> char \<Rightarrow> bool" where
  "same_letter c u = (c = u \<or> (of_char c :: nat) = of_char u + 32)"

section \<open>Where a record's fields come from\<close>

text \<open>
  Two questions asked of a returned record and a value of the input: is the record's
  address pair the split of some element the value iterates to, and do the record's
  protocol and ports come from some entry the value iterates to.
\<close>

definition cidr_taken_from :: "FirewallRule \<Rightarrow> json \<Rightarrow> bool" where
  "cidr_taken_from r v =
     (case py_iter v of
        Inl _ \<Rightarrow> False
      | Inr cs \<Rightarrow> list_ex (\<lambda>c. split_cidr c = Inr [ip_addr r, ip_bits r]) cs)"

definition entry_taken_from :: "FirewallRule \<Rightarrow> json \<Rightarrow> bool" where
  "entry_taken_from r v =
     (case py_iter v of
        Inl _ \<Rightarrow> False
      | Inr ms \<Rightarrow>
          list_ex (\<lambda>m. case m of
                     JObj e \<Rightarrow>
                       (case py_iter (dict_get e ''IPProtocol'' (JArr [])) of
                          Inl _ \<Rightarrow> False
                        | Inr ps \<Rightarrow> ip_protocol r \<in> set ps) \<and>
                       flatten_ports (dict_get e ''ports'' (JArr [])) = Inr (ports r)
                   | _ \<Rightarrow> False) ms)"

section \<open>Sample resources\<close>

text \<open>
  The resource of the module's own documentation string, with the protocol written as
  a list: one service account, one source range, one permission entry, and the
  \<^verbatim>\<open>disabled\<close> field set to the JSON boolean \<^verbatim>\<open>false\<close>.
\<close>

definition grpc_rule :: "(string \<times> json) list" where
  "grpc_rule =
     [(''allowed'', JArr [JObj [(''IPProtocol'', JArr [JStr ''tcp'']),
                                (''ports'', JArr [JStr ''50051''])]]),
      (''creationTimestamp'', JStr ''2018-02-28T21:49:07.739-08:00''),
      (''direction'', JStr ''INGRESS''),
      (''disabled'', JBool False),
      (''priority'', JInt 0),
      (''sourceRanges'', JArr [JStr ''10.128.0.0/9'']),
      (''targetServiceAccounts'', JArr [JStr ''forseti-gcp-server-1432''])]"

text \<open>
  An egress rule that denies two protocols on two ports, written in lower case and
  carrying both range lists.
\<close>

definition egress_rule :: "(string \<times> json) list" where
  "egress_rule =
     [(''denied'', JArr [JObj [(''IPProtocol'', JArr [JStr ''tcp'', JStr ''udp'']),
                               (''ports'', JArr [JStr ''1'', JStr ''50051''])]]),
      (''direction'', JStr ''egress''),
      (''priority'', JInt 1000),
      (''sourceRanges'', JArr [JStr ''192.168.0.0/16'']),
      (''destinationRanges'', JArr [JStr ''0.0.0.0/0'']),
      (''targetTags'', JArr [JStr ''web''])]"

text \<open>An ingress rule whose direction is written in mixed case; it carries both range lists.\<close>

definition ingress_rule :: "(string \<times> json) list" where
  "ingress_rule =
     [(''allowed'', JArr [JObj [(''IPProtocol'', JArr [JStr ''icmp''])]]),
      (''direction'', JStr ''Ingress''),
      (''sourceRanges'', JArr [JStr ''10.0.0.0/8'']),
      (''destinationRanges'', JArr [JStr ''172.16.0.0/12'']),
      (''targetTags'', JArr [JStr ''db''])]"

text \<open>
  Two tags, two source ranges and two permission entries naming three protocols in
  all; the second entry has no \<^verbatim>\<open>ports\<close> field.
\<close>

definition fanout_entries :: "(string \<times> json) list list" where
  "fanout_entries =
     [[(''IPProtocol'', JArr [JStr ''tcp'', JStr ''udp'']),
       (''ports'', JArr [JStr ''1-5'', JStr ''50051''])],
      [(''IPProtocol'', JArr [JStr ''icmp''])]]"

definition fanout_rule :: "(string \<times> json) list" where
  "fanout_rule =
     [(''allowed'', JArr (map JObj fanout_entries)),
      (''direction'', JStr ''INGRESS''),
      (''priority'', JInt 1000),
      (''sourceRanges'', JArr [JStr ''10.0.0.0/8'', JStr ''192.168.1.0/24'']),
      (''targetTags'', JArr [JStr ''web'', JStr ''db''])]"

text \<open>An object with an empty target list and nothing else.\<close>

definition targets_only_rule :: "(string \<times> json) list" where
  "targets_only_rule = [(''targetTags'', JArr [])]"

text \<open>
  An empty target list together with range entries that do not split into two parts
  and a port token that is no number.
\<close>

definition lazy_rule :: "(string \<times> json) list" where
  "lazy_rule =
     [(''allowed'', JArr [JObj [(''IPProtocol'', JArr [JStr ''tcp'']),
                                (''ports'', JArr [JStr ''http''])]]),
      (''direction'', JStr ''INGRESS''),
      (''sourceRanges'', JArr [JStr ''10.0.0.0'', JStr ''1/2/3'']),
      (''targetTags'', JArr [])]"

text \<open>One target and a second range entry without a slash.\<close>

definition bad_cidr_rule :: "(string \<times> json) list" where
  "bad_cidr_rule =
     [(''allowed'', JArr [JObj [(''IPProtocol'', JArr [JStr ''tcp'']),
                                (''ports'', JArr [JStr ''22''])]]),
      (''direction'', JStr ''INGRESS''),
      (''sourceRanges'', JArr [JStr ''10.0.0.0/8'', JStr ''10.128.0.0'']),
      (''targetTags'', JArr [JStr ''web''])]"

text \<open>
  An ingress rule that names its sources by tag: it has neither target key and no
  \<^verbatim>\<open>sourceRanges\<close>.
\<close>

definition sourcetag_rule :: "(string \<times> json) list" where
  "sourcetag_rule =
     [(''allowed'', JArr [JObj [(''IPProtocol'', JArr [JStr ''tcp'']),
                                (''ports'', JArr [JStr ''22''])]]),
      (''direction'', JStr ''INGRESS''),
      (''sourceTags'', JArr [JStr ''bastion''])]"

text \<open>A rule with neither target key, and one with neither permission key.\<close>

definition untargeted_rule :: "(string \<times> json) list" where
  "untargeted_rule =
     [(''allowed'', JArr [JObj [(''IPProtocol'', JArr [JStr ''tcp'']),
                                (''ports'', JArr [JStr ''22''])]]),
      (''direction'', JStr ''INGRESS''),
      (''sourceRanges'', JArr [JStr ''0.0.0.0/0''])]"

definition no_permission_rule :: "(string \<times> json) list" where
  "no_permission_rule =
     [(''direction'', JStr ''INGRESS''),
      (''sourceRanges'', JArr [JStr ''10.0.0.0/8'']),
      (''targetTags'', JArr [JStr ''web''])]"

text \<open>
  A rule whose direction is neither word, and one whose direction is \<^verbatim>\<open>ingre\<close>
  followed by the sharp s (code point 223); both carry both range lists.
\<close>

definition sideways_rule :: "(string \<times> json) list" where
  "sideways_rule =
     [(''allowed'', JArr [JObj [(''IPProtocol'', JArr [JStr ''tcp''])]]),
      (''direction'', JStr ''sideways''),
      (''sourceRanges'', JArr [JStr ''10.0.0.0/8'']),
      (''destinationRanges'', JArr [JStr ''172.16.0.0/12'']),
      (''targetTags'', JArr [JStr ''db''])]"

definition sharp_s_rule :: "(string \<times> json) list" where
  "sharp_s_rule =
     [(''allowed'', JArr [JObj [(''IPProtocol'', JArr [JStr ''tcp''])]]),
      (''direction'', JStr (''ingre'' @ [char_of (223 :: nat)])),
      (''sourceRanges'', JArr [JStr ''10.0.0.0/8'']),
      (''destinationRanges'', JArr [JStr ''172.16.0.0/12'']),
      (''targetTags'', JArr [JStr ''db''])]"

section \<open>Auxiliary facts\<close>

subsection \<open>Results and loops\<close>

lemma bind_result_Inl [simp]: "bind_result (Inl e) f = Inl e"
  by (simp add: bind_result_def)

lemma bind_result_Inr [simp]: "bind_result (Inr x) f = f x"
  by (simp add: bind_result_def)

lemma bind_result_eq_Inr: "bind_result r f = Inr y \<longleftrightarrow> (\<exists>x. r = Inr x \<and> f x = Inr y)"
  by (cases r) simp_all

lemma map_result_Inr_D:
  "map_result f xs = Inr ys \<Longrightarrow> list_all2 (\<lambda>x y. f x = Inr y) xs ys"
  by (induction xs arbitrary: ys) (auto split: sum.splits)

lemma map_result_all_Inr:
  "(\<And>x. x \<in> set xs \<Longrightarrow> f x = Inr (g x)) \<Longrightarrow> map_result f xs = Inr (map g xs)"
  by (induction xs) simp_all

lemma map_result_isl:
  "x \<in> set xs \<Longrightarrow> isl (f x) \<Longrightarrow> isl (map_result f xs)"
  by (induction xs) (auto split: sum.splits)

lemma map_result_concat_member:
  assumes "map_result f xs = Inr yss" and "y \<in> set (concat yss)"
  shows "\<exists>x\<in>set xs. \<exists>ys. f x = Inr ys \<and> y \<in> set ys"
proof -
  from assms(1) have all2: "list_all2 (\<lambda>x ys. f x = Inr ys) xs yss"
    by (rule map_result_Inr_D)
  from assms(2) obtain ys where "ys \<in> set yss" and y: "y \<in> set ys"
    by auto
  then obtain i where "i < length yss" and "yss ! i = ys"
    by (auto simp: in_set_conv_nth)
  with all2 have "f (xs ! i) = Inr ys" and "xs ! i \<in> set xs"
    by (auto simp: list_all2_conv_all_nth)
  with y show ?thesis by blast
qed

lemma map_result_map: "map_result f (map h xs) = map_result (\<lambda>x. f (h x)) xs"
  by (induction xs) (auto split: sum.splits)

lemma map_result_member:
  "map_result f xs = Inr ys \<Longrightarrow> y \<in> set ys \<Longrightarrow> \<exists>x\<in>set xs. f x = Inr y"
  by (induction xs arbitrary: ys) (auto split: sum.splits)

lemma isl_bind_result: "isl r \<Longrightarrow> isl (bind_result r f)"
  by (cases r) simp_all

lemma map_result_image:
  "map_result f xs = Inr ys \<Longrightarrow> x \<in> set xs \<Longrightarrow> \<exists>y\<in>set ys. f x = Inr y"
  by (induction xs arbitrary: ys) (auto split: sum.splits)

lemma length_concat_const:
  "(\<And>x. x \<in> set xs \<Longrightarrow> length (f x) = n) \<Longrightarrow> length (concat (map f xs)) = length xs * n"
  by (induction xs) simp_all

lemma length_concat_map_map:
  "length (concat (map (\<lambda>e. map (g e) (h e)) es)) = sum_list (map (\<lambda>e. length (h e)) es)"
  by (induction es) simp_all

subsection \<open>Strings and integer literals\<close>

lemma split_on_no_sep: "sep \<notin> set s \<Longrightarrow> split_on sep s = [s]"
  by (induction s) auto

lemma split_on_one_sep:
  "sep \<notin> set a \<Longrightarrow> sep \<notin> set b \<Longrightarrow> split_on sep (a @ sep # b) = [a, b]"
  by (induction a) (auto simp: split_on_no_sep)

lemma split_on_length: "length (split_on sep s) = Suc (count_list s sep)"
  by (induction s) (auto split: list.splits)

text \<open>The index error of \<^verbatim>\<open>port_range[1]\<close> cannot happen: a string with a hyphen has two parts.\<close>

lemma expand_port_no_IndexError: "expand_port port \<noteq> Inl IndexError"
proof (cases port)
  case (JStr p)
  show ?thesis
  proof (cases "CHR ''-'' \<in> set p")
    case True
    then have "count_list p CHR ''-'' \<noteq> 0"
      by (simp add: count_list_0_iff)
    then have "2 \<le> length (split_on CHR ''-'' p)"
      by (simp add: split_on_length)
    then obtain a ys where ys: "split_on CHR ''-'' p = a # ys" and "1 \<le> length ys"
      by (cases "split_on CHR ''-'' p") auto
    then obtain b rest where "split_on CHR ''-'' p = a # b # rest"
      by (cases ys) auto
    with JStr True show ?thesis
      by (auto simp: bind_result_def py_int_def digits_int_def split: sum.splits list.splits)
  next
    case False
    with JStr show ?thesis
      by (auto simp: bind_result_def py_int_def digits_int_def split: sum.splits list.splits)
  qed
qed auto


lemma digit_not_space: "is_digit c \<Longrightarrow> \<not> is_space c"
  by (auto simp: is_digit_def is_space_def)

lemma digit_not_sign: "is_digit c \<Longrightarrow> c \<noteq> CHR ''+'' \<and> c \<noteq> CHR ''-''"
  by (auto simp: is_digit_def)

lemma decimal_no_hyphen: "is_decimal s \<Longrightarrow> CHR ''-'' \<notin> set s"
  using digit_not_sign by (auto simp: is_decimal_def list_all_iff)

lemma dropWhile_id: "s \<noteq> [] \<Longrightarrow> \<not> P (hd s) \<Longrightarrow> dropWhile P s = s"
  by (cases s) simp_all

lemma strip_decimal: "is_decimal s \<Longrightarrow> strip s = s"
proof -
  assume d: "is_decimal s"
  then have ne: "s \<noteq> []" and all: "\<forall>c\<in>set s. is_digit c"
    by (simp_all add: is_decimal_def list_all_iff)
  from ne all have "\<not> is_space (hd s)" and "\<not> is_space (last s)"
    by (simp_all add: digit_not_space)
  with ne have 1: "dropWhile is_space s = s"
    by (simp add: dropWhile_id)
  from ne \<open>\<not> is_space (last s)\<close> have "dropWhile is_space (rev s) = rev s"
    by (simp add: dropWhile_id hd_rev)
  with 1 show ?thesis by (simp add: strip_def)
qed

lemma digits_digit_groups: "s \<noteq> [] \<Longrightarrow> list_all is_digit s \<Longrightarrow> digit_groups s"
proof (induction s rule: digit_groups.induct)
  case (3 c d cs)
  then have "d \<noteq> CHR ''_''"
    by (auto simp: is_digit_def)
  with 3 show ?case by simp
qed simp_all

lemma decimal_digit_groups: "is_decimal s \<Longrightarrow> digit_groups s"
  by (simp add: is_decimal_def digits_digit_groups)

lemma decimal_filter: "is_decimal s \<Longrightarrow> filter is_digit s = s"
  by (simp add: is_decimal_def list_all_iff)

lemma py_int_decimal: "is_decimal s \<Longrightarrow> py_int s = Inr (dec_val s)"
proof -
  assume d: "is_decimal s"
  then obtain c cs where s: "s = c # cs" and c: "is_digit c"
    by (cases s) (auto simp: is_decimal_def)
  from d have "digits_int s = Inr (dec_val s)"
    by (simp add: digits_int_def decimal_digit_groups decimal_filter)
  with d s c show ?thesis
    using digit_not_sign [of c] by (simp add: py_int_def strip_decimal)
qed

lemma expand_port_valid:
  assumes "valid_port_spec s"
  shows "expand_port (JStr (spec_text s)) = Inr (range_of s)"
proof (cases s)
  case (SinglePort n)
  with assms show ?thesis
    by (simp add: decimal_no_hyphen py_int_decimal range_of_def)
next
  case (PortRange a b)
  with assms have a: "is_decimal a" and b: "is_decimal b" by simp_all
  then have "split_on CHR ''-'' (a @ CHR ''-'' # b) = [a, b]"
    by (simp add: split_on_one_sep decimal_no_hyphen)
  with PortRange a b show ?thesis
    by (simp add: py_int_decimal range_of_def)
qed

lemma set_range_of: "set (range_of s) = spec_ports s"
  by (cases s) (simp_all add: range_of_def)

subsection \<open>Upper-casing ASCII text\<close>

lemma upper_char_same_letter:
  assumes "is_ascii c" and "is_upper_letter u"
  shows "upper_char c = [of_char u] \<longleftrightarrow> same_letter c u"
proof (cases "97 \<le> (of_char c :: nat) \<and> (of_char c :: nat) \<le> 122")
  case True
  with assms have "c \<noteq> u"
    by (auto simp: is_upper_letter_def)
  with True show ?thesis
    by (auto simp: upper_char_def same_letter_def)
next
  case False
  with assms have "(of_char c :: nat) \<noteq> of_char u + 32"
    by (auto simp: is_upper_letter_def)
  with False assms(1) show ?thesis
    by (auto simp: upper_char_def same_letter_def is_ascii_def)
qed

lemma upper_char_ascii_single: "is_ascii c \<Longrightarrow> \<exists>n. upper_char c = [n]"
  by (auto simp: upper_char_def is_ascii_def Let_def)

lemma upper_eq_upper_case_word:
  assumes "list_all is_ascii s" and "list_all is_upper_letter t"
  shows "upper s = code_points t \<longleftrightarrow> list_all2 same_letter s t"
  using assms
proof (induction s arbitrary: t)
  case Nil
  then show ?case by (auto simp: upper_def code_points_def)
next
  case (Cons c s)
  from Cons.prems(1) obtain n where n: "upper_char c = [n]"
    using upper_char_ascii_single by auto
  show ?case
  proof (cases t)
    case Nil
    with n show ?thesis by (simp add: upper_def code_points_def)
  next
    case (Cons u t')
    with Cons.prems have c: "is_ascii c" and u: "is_upper_letter u"
      and s: "list_all is_ascii s" and t': "list_all is_upper_letter t'"
      by simp_all
    from Cons.IH [OF s t'] have rest: "upper s = code_points t' \<longleftrightarrow> list_all2 same_letter s t'" .
    from upper_char_same_letter [OF c u] n have first: "n = of_char u \<longleftrightarrow> same_letter c u"
      by simp
    have "upper (c # s) = n # upper s"
      using n by (simp add: upper_def)
    moreover have "code_points t = of_char u # code_points t'"
      using Cons by (simp add: code_points_def)
    ultimately show ?thesis
      using first rest Cons by simp
  qed
qed

subsection \<open>The loops of the flattener\<close>

lemma mapping_rules_member:
  assumes "mapping_rules env i a b m = Inr rs" and "r \<in> set rs"
  shows "\<exists>e fl ps p. m = JObj e \<and>
           flatten_ports (dict_get e ''ports'' (JArr [])) = Inr fl \<and>
           py_iter (dict_get e ''IPProtocol'' (JArr [])) = Inr ps \<and> p \<in> set ps \<and>
           r = make_rule env i a b fl p"
  using assms by (cases m) (auto simp: bind_result_eq_Inr)

lemma pair_rules_member:
  assumes "pair_rules env i pr = Inr rs" and "r \<in> set rs"
  shows "\<exists>a b ms m rs'. pr = [a, b] \<and> py_iter (env_protocol_mappings env) = Inr ms \<and>
           m \<in> set ms \<and> mapping_rules env i a b m = Inr rs' \<and> r \<in> set rs'"
proof (cases "(env, i, pr)" rule: pair_rules.cases)
  case (1 env' i' a b)
  with assms obtain ms rss where ms: "py_iter (env_protocol_mappings env) = Inr ms"
    and rss: "map_result (mapping_rules env i a b) ms = Inr rss" and r: "r \<in> set (concat rss)"
    by (auto simp: bind_result_eq_Inr)
  from map_result_concat_member [OF rss r] ms 1 show ?thesis by auto
qed (use assms in auto)

lemma identifier_rules_member:
  assumes "identifier_rules env prs i = Inr rs" and "r \<in> set rs"
  shows "\<exists>pr\<in>set prs. \<exists>rs'. pair_rules env i pr = Inr rs' \<and> r \<in> set rs'"
proof -
  from assms obtain rss where rss: "map_result (pair_rules env i) prs = Inr rss"
    and r: "r \<in> set (concat rss)"
    by (auto simp: identifier_rules_def bind_result_eq_Inr)
  from map_result_concat_member [OF rss r] show ?thesis .
qed

lemma split_cidr_Inr: "split_cidr c = Inr pr \<Longrightarrow> \<exists>s. c = JStr s \<and> pr = split_on CHR ''/'' s"
  by (cases c) auto

lemma from_json_dict_member:
  assumes "from_json_dict d = Inr rs" and "r \<in> set rs"
  shows "\<exists>dir cs ids ms i s a b e fl ps p.
           dict_get d ''direction'' JNull = JStr dir \<and>
           py_iter (select_ranges d dir) = Inr cs \<and> JStr s \<in> set cs \<and>
           py_iter (select_identifiers d) = Inr ids \<and> i \<in> set ids \<and>
           py_iter (dict_get d (select_action d) (JArr [])) = Inr ms \<and> JObj e \<in> set ms \<and>
           flatten_ports (dict_get e ''ports'' (JArr [])) = Inr fl \<and>
           py_iter (dict_get e ''IPProtocol'' (JArr [])) = Inr ps \<and> p \<in> set ps \<and>
           split_on CHR ''/'' s = [a, b] \<and>
           r = make_rule (initial_env d dir) i a b fl p"
proof -
  from assms(1) obtain dir where dir: "dict_get d ''direction'' JNull = JStr dir"
    by (auto simp: from_json_dict_def split: json.splits)
  with assms(1) obtain cs prs ids rss where
      cs: "py_iter (select_ranges d dir) = Inr cs"
    and prs: "map_result split_cidr cs = Inr prs"
    and ids: "py_iter (select_identifiers d) = Inr ids"
    and rss: "map_result (identifier_rules (initial_env d dir) prs) ids = Inr rss"
    and rs: "rs = concat rss"
    by (auto simp: from_json_dict_def bind_result_eq_Inr)
  from map_result_concat_member [OF rss] assms(2) rs obtain i rs1 where
      i: "i \<in> set ids" and rs1: "identifier_rules (initial_env d dir) prs i = Inr rs1"
      and r1: "r \<in> set rs1"
    by blast
  from identifier_rules_member [OF rs1 r1] obtain pr rs2 where
      pr: "pr \<in> set prs" and rs2: "pair_rules (initial_env d dir) i pr = Inr rs2"
      and r2: "r \<in> set rs2"
    by blast
  from pair_rules_member [OF rs2 r2] obtain a b ms m rs3 where
      ab: "pr = [a, b]" and ms: "py_iter (env_protocol_mappings (initial_env d dir)) = Inr ms"
      and m: "m \<in> set ms" and rs3: "mapping_rules (initial_env d dir) i a b m = Inr rs3"
      and r3: "r \<in> set rs3"
    by blast
  from mapping_rules_member [OF rs3 r3] obtain e fl ps p where
      e: "m = JObj e" and fl: "flatten_ports (dict_get e ''ports'' (JArr [])) = Inr fl"
      and ps: "py_iter (dict_get e ''IPProtocol'' (JArr [])) = Inr ps" and p: "p \<in> set ps"
      and r: "r = make_rule (initial_env d dir) i a b fl p"
    by blast
  from map_result_member [OF prs pr] obtain c where c: "c \<in> set cs" and "split_cidr c = Inr pr"
    by blast
  then obtain s where s: "c = JStr s" and "pr = split_on CHR ''/'' s"
    using split_cidr_Inr by blast
  with ab have split: "split_on CHR ''/'' s = [a, b]" by simp
  from ms have ms': "py_iter (dict_get d (select_action d) (JArr [])) = Inr ms"
    by (simp add: initial_env_def)
  from c s have c': "JStr s \<in> set cs" by simp
  from m e have m': "JObj e \<in> set ms" by simp
  show ?thesis
    by (rule exI [where x = dir], rule exI [where x = cs], rule exI [where x = ids],
        rule exI [where x = ms], rule exI [where x = i], rule exI [where x = s],
        rule exI [where x = a], rule exI [where x = b], rule exI [where x = e], rule exI [where x = fl], rule exI [where x = ps],
        rule exI [where x = p])
       (use dir cs c' ids i ms' m' fl ps p split r in blast)
qed

lemma record_shared_values:
  assumes "from_json_dict d = Inr rs" and "r \<in> set rs"
  shows "creation_timestamp r = dict_get d ''creationTimestamp'' JNull \<and>
         priority r = dict_get d ''priority'' JNull \<and>
         action r = select_action d \<and>
         dict_get d ''direction'' JNull = JStr (direction r) \<and>
         disabled r = select_disabled d"
proof -
  from from_json_dict_member [OF assms] obtain dir i a b fl p where
      "dict_get d ''direction'' JNull = JStr dir"
      and "r = make_rule (initial_env d dir) i a b fl p"
    by blast
  then show ?thesis
    by (simp add: make_rule_def initial_env_def)
qed

lemma record_cidr_origin:
  assumes "from_json_dict d = Inr rs" and "r \<in> set rs"
  shows "cidr_taken_from r (select_ranges d (direction r))"
proof -
  from from_json_dict_member [OF assms] obtain dir cs s i a b fl p where
      cs: "py_iter (select_ranges d dir) = Inr cs" and s: "JStr s \<in> set cs"
      and sp: "split_on CHR ''/'' s = [a, b]"
      and r: "r = make_rule (initial_env d dir) i a b fl p"
    by blast
  from r have "direction r = dir" "ip_addr r = a" "ip_bits r = b"
    by (simp_all add: make_rule_def initial_env_def)
  moreover from sp have "split_cidr (JStr s) = Inr [a, b]" by simp
  ultimately show ?thesis
    using cs s by (auto simp: cidr_taken_from_def list_ex_iff intro!: bexI [where x = "JStr s"])
qed

lemma record_entry_origin:
  assumes "from_json_dict d = Inr rs" and "r \<in> set rs"
  shows "entry_taken_from r (dict_get d (select_action d) (JArr []))"
proof -
  from from_json_dict_member [OF assms] obtain dir ms e i a b fl ps p where
      ms: "py_iter (dict_get d (select_action d) (JArr [])) = Inr ms" and e: "JObj e \<in> set ms"
      and fl: "flatten_ports (dict_get e ''ports'' (JArr [])) = Inr fl"
      and ps: "py_iter (dict_get e ''IPProtocol'' (JArr [])) = Inr ps" and p: "p \<in> set ps"
      and r: "r = make_rule (initial_env d dir) i a b fl p"
    by blast
  from r have "ports r = fl" "ip_protocol r = p"
    by (simp_all add: make_rule_def)
  with ms e fl ps p show ?thesis
    by (auto simp: entry_taken_from_def list_ex_iff intro!: bexI [where x = "JObj e"])
qed

text \<open>The flag is false for the string \<^verbatim>\<open>"false"\<close> and for nothing else.\<close>

lemma select_disabled_iff:
  "select_disabled d \<longleftrightarrow> dict_get d ''disabled'' JNull \<noteq> JStr ''false''"
  by (simp add: select_disabled_def)

lemma from_json_dict_no_direction:
  "\<not> dict_has d ''direction'' \<Longrightarrow> from_json_dict d = Inl (AttributeError ''upper'')"
  by (simp add: from_json_dict_def dict_has_def dict_get_def)

lemma pair_rules_unpack: "length pr \<noteq> 2 \<Longrightarrow> pair_rules env i pr = Inl ValueErrorUnpack"
  by (cases "(env, i, pr)" rule: pair_rules.cases) simp_all

lemma split_cidr_strings:
  "\<forall>c\<in>set cs. \<exists>s. c = JStr s \<Longrightarrow> map_result split_cidr cs = Inr (map (\<lambda>c. projr (split_cidr c)) cs)"
  by (rule map_result_all_Inr) auto

lemma from_json_dict_no_identifiers:
  assumes "py_iter (select_identifiers d) = Inr []"
    and "dict_get d ''direction'' JNull = JStr dir"
    and "py_iter (select_ranges d dir) = Inr cs"
    and "\<forall>c\<in>set cs. \<exists>s. c = JStr s"
  shows "from_json_dict d = Inr []"
  using assms(1-3) split_cidr_strings [OF assms(4)]
  by (simp add: from_json_dict_def)

lemma select_identifiers_absent:
  "\<not> dict_has d ''targetServiceAccounts'' \<Longrightarrow> \<not> dict_has d ''targetTags'' \<Longrightarrow>
   select_identifiers d = JArr []"
  by (simp add: select_identifiers_def)

lemma from_json_dict_no_permissions:
  assumes na: "\<not> dict_has d ''allowed''" and nd: "\<not> dict_has d ''denied''"
    and dir: "dict_get d ''direction'' JNull = JStr dir"
    and cs: "py_iter (select_ranges d dir) = Inr cs"
    and ids: "py_iter (select_identifiers d) = Inr ids"
    and pairs: "\<forall>c\<in>set cs. \<exists>a b. split_cidr c = Inr [a, b]"
  shows "from_json_dict d = Inr []"
proof -
  define env where "env = initial_env d dir"
  from na nd have "env_protocol_mappings env = JArr []"
    by (simp add: env_def initial_env_def select_action_def dict_has_def dict_get_def)
  then have pair: "pair_rules env i [a, b] = Inr []" for i a b
    by simp
  from pairs have split: "map_result split_cidr cs = Inr (map (\<lambda>c. projr (split_cidr c)) cs)"
    by (intro map_result_all_Inr) auto
  have ident: "identifier_rules env (map (\<lambda>c. projr (split_cidr c)) cs) i = Inr []" for i
  proof -
    have "map_result (pair_rules env i) (map (\<lambda>c. projr (split_cidr c)) cs) =
            Inr (map (\<lambda>c. []) cs)"
      unfolding map_result_map
    proof (rule map_result_all_Inr)
      fix c assume "c \<in> set cs"
      with pairs obtain a b where "split_cidr c = Inr [a, b]" by blast
      then show "pair_rules env i (projr (split_cidr c)) = Inr []"
        by (simp add: pair del: pair_rules.simps)
    qed
    then show ?thesis by (simp add: identifier_rules_def)
  qed
  have "map_result (identifier_rules env (map (\<lambda>c. projr (split_cidr c)) cs)) ids =
          Inr (map (\<lambda>i. []) ids)"
    by (rule map_result_all_Inr) (rule ident)
  with dir cs ids split show ?thesis
    by (simp add: from_json_dict_def env_def)
qed

lemma from_json_dict_unsplit_cidr:
  assumes dir: "dict_get d ''direction'' JNull = JStr dir"
    and cs: "py_iter (select_ranges d dir) = Inr cs"
    and s: "JStr s \<in> set cs" and bad: "length (split_on CHR ''/'' s) \<noteq> 2"
    and ids: "py_iter (select_identifiers d) \<noteq> Inr []"
  shows "isl (from_json_dict d)"
proof (cases "map_result split_cidr cs")
  case (Inl e)
  with dir cs show ?thesis by (simp add: from_json_dict_def)
next
  case (Inr prs)
  from map_result_image [OF Inr s] have pr: "split_on CHR ''/'' s \<in> set prs" by simp
  show ?thesis
  proof (cases "py_iter (select_identifiers d)")
    case (Inl e)
    with dir cs Inr show ?thesis by (simp add: from_json_dict_def)
  next
    case ids': (Inr idl)
    with ids obtain i rest where idl: "idl = i # rest" by (cases idl) auto
    have "isl (map_result (pair_rules (initial_env d dir) i) prs)"
      using pr by (rule map_result_isl) (simp add: pair_rules_unpack [OF bad])
    then have "isl (identifier_rules (initial_env d dir) prs i)"
      by (simp add: identifier_rules_def isl_bind_result)
    then have "isl (map_result (identifier_rules (initial_env d dir) prs) idl)"
      using idl by (auto split: sum.splits)
    with dir cs Inr ids' show ?thesis
      by (simp add: from_json_dict_def isl_bind_result)
  qed
qed

section \<open>Results about the port range expander\<close>

text \<open>
  C7. The expander applied to the empty sequence of port specifications returns the
  empty collection of ports; in particular it does not return the ports 0 to 65535.
\<close>

theorem flatten_ports_empty:
  "flatten_ports (JArr []) = Inr [] \<and> flatten_ports (JArr []) \<noteq> Inr [0 .. 65535]"
  by (simp add: flatten_ports_def bind_result_def)

text \<open>
  C3, as stated, does not hold: on the single specification \<^verbatim>\<open>"5-1"\<close> the expander
  raises nothing.
\<close>

theorem flatten_ports_reversed_range_no_error:
  "\<not> isl (flatten_ports (JArr [JStr ''5-1'']))"
  by code_simp

text \<open>
  C3, amended. On the single specification \<^verbatim>\<open>"5-1"\<close>, whose low bound exceeds its high
  bound, the expander returns the empty collection of ports: \<^verbatim>\<open>range(5, 2)\<close> is empty.
\<close>

theorem flatten_ports_reversed_range_empty:
  "flatten_ports (JArr [JStr ''5-1'']) = Inr []"
  by code_simp

text \<open>
  C6. For every sequence of valid port specifications the expander returns a list
  without duplicates whose elements are exactly the union of what the specifications
  stand for: every integer from \<open>A\<close> to \<open>B\<close> for a range, the value itself for a
  single port. The right-hand side depends on the set of specifications only, so the
  order of the input does not matter.
\<close>

theorem flatten_ports_union:
  assumes "\<forall>s\<in>set specs. valid_port_spec s"
  shows "\<exists>ps. flatten_ports (JArr (map (\<lambda>s. JStr (spec_text s)) specs)) = Inr ps \<and>
           distinct ps \<and> set ps = (\<Union>s\<in>set specs. spec_ports s)"
proof -
  have "map_result expand_port (map (\<lambda>s. JStr (spec_text s)) specs) = Inr (map range_of specs)"
    using assms by (induction specs) (simp_all add: expand_port_valid del: expand_port.simps)
  then have "flatten_ports (JArr (map (\<lambda>s. JStr (spec_text s)) specs)) = Inr (remdups (concat (map range_of specs)))"
    by (simp add: flatten_ports_def)
  moreover have "set (remdups (concat (map range_of specs))) = (\<Union>s\<in>set specs. spec_ports s)"
    by (simp add: set_range_of)
  ultimately show ?thesis by simp
qed

text \<open>The specifications \<^verbatim>\<open>"1-5"\<close>, \<^verbatim>\<open>"50051"\<close> and \<^verbatim>\<open>"3"\<close>, the last one a duplicate.\<close>

theorem flatten_ports_union_witness:
  "list_all valid_port_spec [PortRange ''1'' ''5'', SinglePort ''50051'', SinglePort ''3''] \<and>
   (\<exists>ps. flatten_ports (JArr [JStr ''1-5'', JStr ''50051'', JStr ''3'']) = Inr ps \<and>
          distinct ps \<and> set ps = {1, 2, 3, 4, 5, 50051})"
proof -
  have v: "\<forall>s\<in>set [PortRange ''1'' ''5'', SinglePort ''50051'', SinglePort ''3'']. valid_port_spec s"
    by (simp add: is_decimal_def is_digit_def dec_val_def digit_val_def)
  have r: "(\<Union>s\<in>set [PortRange ''1'' ''5'', SinglePort ''50051'', SinglePort ''3'']. spec_ports s) = {1, 2, 3, 4, 5, 50051}"
    by (auto simp: dec_val_def digit_val_def)
  show ?thesis
    using flatten_ports_union [OF v] v r by (simp add: list_all_iff)
qed

section \<open>Results about the rule flattener\<close>

text \<open>
  C1 at the boolean \<^verbatim>\<open>false\<close>. Line 130 compares the field with the string
  \<^verbatim>\<open>'false'\<close> only, so the sample rule, whose \<^verbatim>\<open>disabled\<close> field is the boolean
  \<^verbatim>\<open>false\<close>, yields one record and that record is marked disabled.
\<close>

theorem disabled_boolean_false_yields_true:
  "dict_get grpc_rule ''disabled'' JNull = JBool False \<and>
   map disabled (projr (from_json_dict grpc_rule)) = [True]"
  by code_simp

text \<open>
  C10. All records one call returns carry the same creation timestamp, priority,
  action, direction and disabled flag.
\<close>

theorem records_share_scalar_fields:
  assumes "from_json_dict d = Inr rs" and "r \<in> set rs" and "r' \<in> set rs"
  shows "creation_timestamp r = creation_timestamp r' \<and> priority r = priority r' \<and>
         action r = action r' \<and> direction r = direction r' \<and> disabled r = disabled r'"
  using record_shared_values [OF assms(1,2)] record_shared_values [OF assms(1,3)]
  by simp

text \<open>The egress sample yields two records, one per protocol.\<close>

theorem records_share_scalar_fields_witness:
  "from_json_dict egress_rule =
     Inr [\<lparr>creation_timestamp = JNull, priority = JInt 1000, ip_addr = ''0.0.0.0'',
           ip_bits = ''0'', rule_identifier = JStr ''web'', action = ''denied'',
           ip_protocol = JStr ''tcp'', ports = [1, 50051], direction = ''egress'',
           disabled = True\<rparr>,
          \<lparr>creation_timestamp = JNull, priority = JInt 1000, ip_addr = ''0.0.0.0'',
           ip_bits = ''0'', rule_identifier = JStr ''web'', action = ''denied'',
           ip_protocol = JStr ''udp'', ports = [1, 50051], direction = ''egress'',
           disabled = True\<rparr>] \<and>
   list_all (\<lambda>r. list_all (\<lambda>r'.
       creation_timestamp r = creation_timestamp r' \<and> priority r = priority r' \<and>
       action r = action r' \<and> direction r = direction r' \<and> disabled r = disabled r')
     (projr (from_json_dict egress_rule))) (projr (from_json_dict egress_rule))"
proof -
  have e: "from_json_dict egress_rule =
     Inr [\<lparr>creation_timestamp = JNull, priority = JInt 1000, ip_addr = ''0.0.0.0'',
           ip_bits = ''0'', rule_identifier = JStr ''web'', action = ''denied'',
           ip_protocol = JStr ''tcp'', ports = [1, 50051], direction = ''egress'',
           disabled = True\<rparr>,
          \<lparr>creation_timestamp = JNull, priority = JInt 1000, ip_addr = ''0.0.0.0'',
           ip_bits = ''0'', rule_identifier = JStr ''web'', action = ''denied'',
           ip_protocol = JStr ''udp'', ports = [1, 50051], direction = ''egress'',
           disabled = True\<rparr>]"
    by code_simp
  have "\<forall>r\<in>set (projr (from_json_dict egress_rule)). \<forall>r'\<in>set (projr (from_json_dict egress_rule)).
       creation_timestamp r = creation_timestamp r' \<and> priority r = priority r' \<and>
       action r = action r' \<and> direction r = direction r' \<and> disabled r = disabled r'"
    using records_share_scalar_fields [of egress_rule "projr (from_json_dict egress_rule)"]
    by (simp only: e sum.sel) blast
  with e show ?thesis
    by (simp only: list_all_iff)
qed

text \<open>
  C4, as stated, does not hold: a direction that is not \<^verbatim>\<open>INGRESS\<close> in any casing is
  not turned into egress. The one record of the sample carries the direction
  \<^verbatim>\<open>sideways\<close>, which is not \<^verbatim>\<open>EGRESS\<close> in any casing either.
\<close>

theorem direction_is_not_normalised:
  "upper ''sideways'' \<noteq> code_points ''INGRESS'' \<and>
   map direction (projr (from_json_dict sideways_rule)) = [''sideways''] \<and>
   upper ''sideways'' \<noteq> code_points ''EGRESS''"
  by code_simp

text \<open>
  C4, amended. The direction string is upper-cased and compared with \<^verbatim>\<open>INGRESS\<close>; for
  a string of ASCII characters the comparison succeeds exactly when the string is
  \<^verbatim>\<open>INGRESS\<close> letter by letter, in either case. Every record carries the input's
  direction string unchanged. When the comparison succeeds the address pair of every
  record is the split of an entry of \<^verbatim>\<open>sourceRanges\<close>, and otherwise of an entry of
  \<^verbatim>\<open>destinationRanges\<close>. With no \<^verbatim>\<open>direction\<close> key the call fails with the
  interpreter's attribute error: \<^verbatim>\<open>get\<close> returns \<^verbatim>\<open>None\<close>, which has no
  \<^verbatim>\<open>upper\<close> method.
\<close>

theorem direction_selects_ranges:
  "(\<not> dict_has d ''direction'' \<longrightarrow> from_json_dict d = Inl (AttributeError ''upper'')) \<and>
   (list_all is_ascii dir \<longrightarrow>
      (upper dir = code_points ''INGRESS'' \<longleftrightarrow> list_all2 same_letter dir ''INGRESS'')) \<and>
   (\<forall>rs. from_json_dict d = Inr rs \<longrightarrow>
      (\<forall>r\<in>set rs.
         dict_get d ''direction'' JNull = JStr (direction r) \<and>
         (upper (direction r) = code_points ''INGRESS'' \<longrightarrow>
            cidr_taken_from r (dict_get d ''sourceRanges'' JNull)) \<and>
         (upper (direction r) \<noteq> code_points ''INGRESS'' \<longrightarrow>
            cidr_taken_from r (dict_get d ''destinationRanges'' JNull))))"
proof (intro conjI impI allI ballI)
  assume "\<not> dict_has d ''direction''"
  then show "from_json_dict d = Inl (AttributeError ''upper'')"
    by (rule from_json_dict_no_direction)
next
  assume "list_all is_ascii dir"
  moreover have "list_all is_upper_letter ''INGRESS''"
    by (simp add: is_upper_letter_def)
  ultimately show "upper dir = code_points ''INGRESS'' \<longleftrightarrow> list_all2 same_letter dir ''INGRESS''"
    by (rule upper_eq_upper_case_word)
next
  fix rs r
  assume rs: "from_json_dict d = Inr rs" and r: "r \<in> set rs"
  from record_shared_values [OF rs r]
  show "dict_get d ''direction'' JNull = JStr (direction r)" by simp
  {
    assume "upper (direction r) = code_points ''INGRESS''"
    with record_cidr_origin [OF rs r]
    show "cidr_taken_from r (dict_get d ''sourceRanges'' JNull)"
      by (simp add: select_ranges_def)
  }
  {
    assume "upper (direction r) \<noteq> code_points ''INGRESS''"
    with record_cidr_origin [OF rs r]
    show "cidr_taken_from r (dict_get d ''destinationRanges'' JNull)"
      by (simp add: select_ranges_def)
  }
qed

text \<open>
  The empty object fails. The mixed-case ingress sample and the sample whose direction
  ends in a sharp s take their one record from \<^verbatim>\<open>sourceRanges\<close>, the egress sample its
  two records from \<^verbatim>\<open>destinationRanges\<close>.
\<close>

theorem direction_selects_ranges_witness:
  "from_json_dict [] = Inl (AttributeError ''upper'') \<and>
   upper ''Ingress'' = code_points ''INGRESS'' \<and>
   list_all2 same_letter ''Ingress'' ''INGRESS'' \<and>
   length (projr (from_json_dict ingress_rule)) = 1 \<and>
   list_all (\<lambda>r. direction r = ''Ingress'' \<and> cidr_taken_from r (JArr [JStr ''10.0.0.0/8'']))
     (projr (from_json_dict ingress_rule)) \<and>
   length (projr (from_json_dict sharp_s_rule)) = 1 \<and>
   list_all (\<lambda>r. direction r = ''ingre'' @ [char_of (223 :: nat)] \<and>
               cidr_taken_from r (JArr [JStr ''10.0.0.0/8'']))
     (projr (from_json_dict sharp_s_rule)) \<and>
   length (projr (from_json_dict egress_rule)) = 2 \<and>
   list_all (\<lambda>r. direction r = ''egress'' \<and> cidr_taken_from r (JArr [JStr ''0.0.0.0/0'']))
     (projr (from_json_dict egress_rule))"
proof -
  have absent: "\<not> dict_has [] ''direction''"
    by (simp add: dict_has_def)
  have a: "from_json_dict [] = Inl (AttributeError ''upper'')"
    by (rule direction_selects_ranges [of "[]", THEN conjunct1, rule_format, OF absent])
  have ascii: "list_all is_ascii ''Ingress''"
    and letters: "list_all2 same_letter ''Ingress'' ''INGRESS''"
    by code_simp+
  have iup: "upper ''Ingress'' = code_points ''INGRESS''"
    by (rule direction_selects_ranges [of _ "''Ingress''", THEN conjunct2, THEN conjunct1,
          rule_format, OF ascii, THEN iffD2, OF letters])
  have i: "from_json_dict ingress_rule = Inr (projr (from_json_dict ingress_rule))"
    by code_simp
  have il: "length (projr (from_json_dict ingress_rule)) = 1"
    by code_simp
  have idir: "dict_get ingress_rule ''direction'' JNull = JStr ''Ingress''"
    and isrc: "dict_get ingress_rule ''sourceRanges'' JNull = JArr [JStr ''10.0.0.0/8'']"
    by code_simp+
  have ir: "direction r = ''Ingress'' \<and> cidr_taken_from r (JArr [JStr ''10.0.0.0/8''])"
    if r: "r \<in> set (projr (from_json_dict ingress_rule))" for r
  proof -
    note t = direction_selects_ranges [of ingress_rule, THEN conjunct2, THEN conjunct2,
      rule_format, OF i r]
    from t [THEN conjunct1] have d: "direction r = ''Ingress''"
      by (simp only: idir json.inject)
    from t [THEN conjunct2, THEN conjunct1] have "cidr_taken_from r (JArr [JStr ''10.0.0.0/8''])"
      by (simp only: d iup isrc simp_thms)
    with d show ?thesis by (rule conjI)
  qed
  have s: "from_json_dict sharp_s_rule = Inr (projr (from_json_dict sharp_s_rule))"
    by code_simp
  have sl: "length (projr (from_json_dict sharp_s_rule)) = 1"
    by code_simp
  have sdir: "dict_get sharp_s_rule ''direction'' JNull = JStr (''ingre'' @ [char_of (223 :: nat)])"
    and ssrc: "dict_get sharp_s_rule ''sourceRanges'' JNull = JArr [JStr ''10.0.0.0/8'']"
    and sup: "upper (''ingre'' @ [char_of (223 :: nat)]) = code_points ''INGRESS''"
    by code_simp+
  have sr: "direction r = ''ingre'' @ [char_of (223 :: nat)] \<and>
      cidr_taken_from r (JArr [JStr ''10.0.0.0/8''])"
    if r: "r \<in> set (projr (from_json_dict sharp_s_rule))" for r
  proof -
    note t = direction_selects_ranges [of sharp_s_rule, THEN conjunct2, THEN conjunct2,
      rule_format, OF s r]
    from t [THEN conjunct1] have d: "direction r = ''ingre'' @ [char_of (223 :: nat)]"
      by (simp only: sdir json.inject)
    from t [THEN conjunct2, THEN conjunct1] have "cidr_taken_from r (JArr [JStr ''10.0.0.0/8''])"
      by (simp only: d sup ssrc simp_thms)
    with d show ?thesis by (rule conjI)
  qed
  have e: "from_json_dict egress_rule = Inr (projr (from_json_dict egress_rule))"
    by code_simp
  have el: "length (projr (from_json_dict egress_rule)) = 2"
    by code_simp
  have edir: "dict_get egress_rule ''direction'' JNull = JStr ''egress''"
    and edst: "dict_get egress_rule ''destinationRanges'' JNull = JArr [JStr ''0.0.0.0/0'']"
    and eup: "upper ''egress'' \<noteq> code_points ''INGRESS''"
    by code_simp+
  have er: "direction r = ''egress'' \<and> cidr_taken_from r (JArr [JStr ''0.0.0.0/0''])"
    if r: "r \<in> set (projr (from_json_dict egress_rule))" for r
  proof -
    note t = direction_selects_ranges [of egress_rule, THEN conjunct2, THEN conjunct2,
      rule_format, OF e r]
    from t [THEN conjunct1] have d: "direction r = ''egress''"
      by (simp only: edir json.inject)
    from t [THEN conjunct2, THEN conjunct2] have "cidr_taken_from r (JArr [JStr ''0.0.0.0/0''])"
      by (simp only: d eup edst simp_thms)
    with d show ?thesis by (rule conjI)
  qed
  from ir have ir': "list_all (\<lambda>r. direction r = ''Ingress'' \<and>
      cidr_taken_from r (JArr [JStr ''10.0.0.0/8''])) (projr (from_json_dict ingress_rule))"
    unfolding list_all_iff by (rule ballI)
  from sr have sr': "list_all (\<lambda>r. direction r = ''ingre'' @ [char_of (223 :: nat)] \<and>
      cidr_taken_from r (JArr [JStr ''10.0.0.0/8''])) (projr (from_json_dict sharp_s_rule))"
    unfolding list_all_iff by (rule ballI)
  from er have er': "list_all (\<lambda>r. direction r = ''egress'' \<and>
      cidr_taken_from r (JArr [JStr ''0.0.0.0/0''])) (projr (from_json_dict egress_rule))"
    unfolding list_all_iff by (rule ballI)
  from a iup letters il ir' sl sr' el er' show ?thesis
    by (intro conjI)
qed

text \<open>
  C2. Take a resource whose direction is a string, whose selected identifier list has
  \<open>N\<close> elements, whose selected range list has \<open>M\<close> entries of the form
  \<^verbatim>\<open>address/prefix\<close>, and whose permission list consists of objects with a list of
  protocol names each (\<open>P\<close> names in all) and ports the expander accepts. Then the
  call returns the records of all combinations, identifier by range by entry by
  protocol name, in that order and none missing, each with the expanded ports of its
  entry in one field; their number is \<open>N * M * P\<close>.
\<close>

theorem flatten_cross_product:
  fixes protos :: "(string \<times> json) list \<Rightarrow> json list"
    and fports :: "(string \<times> json) list \<Rightarrow> int list"
  assumes dir: "dict_get d ''direction'' JNull = JStr dir"
    and ids: "select_identifiers d = JArr ids"
    and rng: "select_ranges d dir = JArr (map (\<lambda>c. JStr (fst c @ ''/'' @ snd c)) cidrs)"
    and wf: "\<forall>c\<in>set cidrs. CHR ''/'' \<notin> set (fst c) \<and> CHR ''/'' \<notin> set (snd c)"
    and perm: "dict_get d (select_action d) (JArr []) = JArr (map JObj entries)"
    and prot: "\<forall>e\<in>set entries. dict_get e ''IPProtocol'' (JArr []) = JArr (protos e)"
    and prts: "\<forall>e\<in>set entries. flatten_ports (dict_get e ''ports'' (JArr [])) = Inr (fports e)"
  shows "from_json_dict d =
           Inr (concat (map (\<lambda>i. concat (map (\<lambda>c. concat (map (\<lambda>e. map (\<lambda>p.
                  \<lparr> creation_timestamp = dict_get d ''creationTimestamp'' JNull,
                    priority = dict_get d ''priority'' JNull,
                    ip_addr = fst c, ip_bits = snd c, rule_identifier = i,
                    action = select_action d, ip_protocol = p, ports = fports e,
                    direction = dir, disabled = select_disabled d \<rparr>)
                  (protos e)) entries)) cidrs)) ids)) \<and>
         length (projr (from_json_dict d)) =
           length ids * length cidrs * sum_list (map (\<lambda>e. length (protos e)) entries)"
proof -
  define env where "env = initial_env d dir"
  define rule where "rule = (\<lambda>i c e p. make_rule env i (fst c) (snd c) (fports e) p)"
  have mapping: "mapping_rules env i (fst c) (snd c) (JObj e) = Inr (map (rule i c e) (protos e))"
    if "e \<in> set entries" for i c e
    using that prot prts by (simp add: rule_def)
  have mappings: "py_iter (env_protocol_mappings env) = Inr (map JObj entries)"
    using perm by (simp add: env_def initial_env_def)
  have pair: "pair_rules env i [fst c, snd c] =
                Inr (concat (map (\<lambda>e. map (rule i c e) (protos e)) entries))" for i c
  proof -
    have "map_result (mapping_rules env i (fst c) (snd c)) (map JObj entries) =
            Inr (map (\<lambda>e. map (rule i c e) (protos e)) entries)"
      unfolding map_result_map by (rule map_result_all_Inr) (rule mapping)
    with mappings show ?thesis by simp
  qed
  have split: "map_result split_cidr (map (\<lambda>c. JStr (fst c @ ''/'' @ snd c)) cidrs) =
                 Inr (map (\<lambda>c. [fst c, snd c]) cidrs)"
    unfolding map_result_map
    by (rule map_result_all_Inr) (use wf in \<open>simp add: split_on_one_sep\<close>)
  have ident: "identifier_rules env (map (\<lambda>c. [fst c, snd c]) cidrs) i =
                 Inr (concat (map (\<lambda>c. concat (map (\<lambda>e. map (rule i c e) (protos e)) entries))
                        cidrs))" for i
  proof -
    have "map_result (pair_rules env i) (map (\<lambda>c. [fst c, snd c]) cidrs) =
            Inr (map (\<lambda>c. concat (map (\<lambda>e. map (rule i c e) (protos e)) entries)) cidrs)"
      unfolding map_result_map by (rule map_result_all_Inr) (rule pair)
    then show ?thesis by (simp add: identifier_rules_def)
  qed
  have idents: "map_result (identifier_rules env (map (\<lambda>c. [fst c, snd c]) cidrs)) ids =
      Inr (map (\<lambda>i. concat (map (\<lambda>c. concat (map (\<lambda>e. map (rule i c e) (protos e)) entries))
                        cidrs)) ids)"
    by (rule map_result_all_Inr) (rule ident)
  have result: "from_json_dict d =
      Inr (concat (map (\<lambda>i. concat (map (\<lambda>c. concat (map (\<lambda>e. map (rule i c e) (protos e))
                        entries)) cidrs)) ids))"
    using dir ids rng split idents by (simp add: from_json_dict_def env_def)
  have len: "length (concat (map (\<lambda>i. concat (map (\<lambda>c. concat (map (\<lambda>e. map (rule i c e)
                 (protos e)) entries)) cidrs)) ids)) =
             length ids * length cidrs * sum_list (map (\<lambda>e. length (protos e)) entries)"
    by (simp add: length_concat_const [where n = "length cidrs * sum_list (map (\<lambda>e. length (protos e)) entries)"]
          length_concat_const [where n = "sum_list (map (\<lambda>e. length (protos e)) entries)"]
          length_concat_map_map)
  have rule_eq: "rule = (\<lambda>i c e p.
      \<lparr> creation_timestamp = dict_get d ''creationTimestamp'' JNull,
        priority = dict_get d ''priority'' JNull,
        ip_addr = fst c, ip_bits = snd c, rule_identifier = i,
        action = select_action d, ip_protocol = p, ports = fports e,
        direction = dir, disabled = select_disabled d \<rparr>)"
    by (simp add: rule_def make_rule_def env_def initial_env_def)
  from result len show ?thesis
    unfolding rule_eq by simp
qed

text \<open>The fan-out sample: \<open>2 * 2 * 3\<close> records, the ports of each in one list.\<close>

theorem flatten_cross_product_witness:
  "\<not> isl (from_json_dict fanout_rule) \<and>
   length (projr (from_json_dict fanout_rule)) = 2 * 2 * 3 \<and>
   map ports (projr (from_json_dict fanout_rule)) =
     [[1, 2, 3, 4, 5, 50051], [1, 2, 3, 4, 5, 50051], [],
      [1, 2, 3, 4, 5, 50051], [1, 2, 3, 4, 5, 50051], [],
      [1, 2, 3, 4, 5, 50051], [1, 2, 3, 4, 5, 50051], [],
      [1, 2, 3, 4, 5, 50051], [1, 2, 3, 4, 5, 50051], []]"
proof -
  define protos where
    "protos = (\<lambda>e. projr (py_iter (dict_get e ''IPProtocol'' (JArr []))))"
  define fports where
    "fports = (\<lambda>e. projr (flatten_ports (dict_get e ''ports'' (JArr []))))"
  define cidrs where "cidrs = [(''10.0.0.0'', ''8''), (''192.168.1.0'', ''24'')]"
  have dir: "dict_get fanout_rule ''direction'' JNull = JStr ''INGRESS''"
    by code_simp
  have ids: "select_identifiers fanout_rule = JArr [JStr ''web'', JStr ''db'']"
    by code_simp
  have rng: "select_ranges fanout_rule ''INGRESS'' =
      JArr (map (\<lambda>c. JStr (fst c @ ''/'' @ snd c)) cidrs)"
    unfolding cidrs_def by code_simp
  have wf: "\<forall>c\<in>set cidrs. CHR ''/'' \<notin> set (fst c) \<and> CHR ''/'' \<notin> set (snd c)"
    unfolding cidrs_def by simp
  have perm: "dict_get fanout_rule (select_action fanout_rule) (JArr []) =
      JArr (map JObj fanout_entries)"
    by code_simp
  have "list_all (\<lambda>e. dict_get e ''IPProtocol'' (JArr []) =
      JArr (projr (py_iter (dict_get e ''IPProtocol'' (JArr []))))) fanout_entries"
    by code_simp
  then have prot: "\<forall>e\<in>set fanout_entries. dict_get e ''IPProtocol'' (JArr []) = JArr (protos e)"
    by (simp add: list_all_iff protos_def)
  have "list_all (\<lambda>e. flatten_ports (dict_get e ''ports'' (JArr [])) =
      Inr (projr (flatten_ports (dict_get e ''ports'' (JArr []))))) fanout_entries"
    by code_simp
  then have prts: "\<forall>e\<in>set fanout_entries.
      flatten_ports (dict_get e ''ports'' (JArr [])) = Inr (fports e)"
    by (simp add: list_all_iff fports_def)
  have count: "sum_list (map (\<lambda>e. length (projr (py_iter (dict_get e ''IPProtocol'' (JArr [])))))
      fanout_entries) = 3"
    by code_simp
  note cp = flatten_cross_product [OF dir ids rng wf perm prot prts]
  have res: "\<not> isl (from_json_dict fanout_rule)"
    by code_simp
  have len: "length (projr (from_json_dict fanout_rule)) =
      length [JStr ''web'', JStr ''db''] * length cidrs *
      sum_list (map (\<lambda>e. length (protos e)) fanout_entries)"
    by (rule cp [THEN conjunct2])
  from len count have "length (projr (from_json_dict fanout_rule)) = 2 * 2 * 3"
    by (simp add: protos_def cidrs_def)
  moreover have "map ports (projr (from_json_dict fanout_rule)) =
     [[1, 2, 3, 4, 5, 50051], [1, 2, 3, 4, 5, 50051], [],
      [1, 2, 3, 4, 5, 50051], [1, 2, 3, 4, 5, 50051], [],
      [1, 2, 3, 4, 5, 50051], [1, 2, 3, 4, 5, 50051], [],
      [1, 2, 3, 4, 5, 50051], [1, 2, 3, 4, 5, 50051], []]"
    by code_simp
  ultimately show ?thesis using res by simp
qed

text \<open>
  C9, as stated, does not hold: an object whose chosen target list is empty but which
  has no \<^verbatim>\<open>direction\<close> fails at line 117, before any loop.
\<close>

theorem empty_identifiers_missing_direction_fails:
  "py_iter (select_identifiers targets_only_rule) = Inr [] \<and>
   from_json_dict targets_only_rule = Inl (AttributeError ''upper'')"
  by code_simp

text \<open>
  C9, amended. When the selected identifier list iterates to nothing, the direction is
  a string and the selected range list iterates to strings, the call returns the empty
  list: range entries are unpacked and port tokens parsed inside the loops only, so
  neither is looked at.
\<close>

theorem empty_identifiers_skip_validation:
  assumes "py_iter (select_identifiers d) = Inr []"
    and "dict_get d ''direction'' JNull = JStr dir"
    and "py_iter (select_ranges d dir) = Inr cs"
    and "\<forall>c\<in>set cs. \<exists>s. c = JStr s"
  shows "from_json_dict d = Inr []"
  using assms by (rule from_json_dict_no_identifiers)

text \<open>
  The sample has two range entries that do not split into two parts and a port token
  the expander rejects; the call returns the empty list all the same.
\<close>

theorem empty_identifiers_skip_validation_witness:
  "length (split_on CHR ''/'' ''10.0.0.0'') \<noteq> 2 \<and>
   length (split_on CHR ''/'' ''1/2/3'') \<noteq> 2 \<and>
   isl (flatten_ports (JArr [JStr ''http''])) \<and>
   from_json_dict lazy_rule = Inr []"
proof -
  have ids: "py_iter (select_identifiers lazy_rule) = Inr []"
    and dir: "dict_get lazy_rule ''direction'' JNull = JStr ''INGRESS''"
    and cs: "py_iter (select_ranges lazy_rule ''INGRESS'') = Inr [JStr ''10.0.0.0'', JStr ''1/2/3'']"
    by code_simp+
  have strs: "\<forall>c\<in>set [JStr ''10.0.0.0'', JStr ''1/2/3'']. \<exists>s. c = JStr s"
    by simp
  have bad: "length (split_on CHR ''/'' ''10.0.0.0'') \<noteq> 2"
      "length (split_on CHR ''/'' ''1/2/3'') \<noteq> 2"
      "isl (flatten_ports (JArr [JStr ''http'']))"
    by code_simp+
  from bad empty_identifiers_skip_validation [OF ids dir cs strs] show ?thesis
    by (intro conjI)
qed

text \<open>
  C5, as stated, does not hold: the selected range list of the sample has an entry
  without a slash, yet the call returns the empty list, since no identifier is iterated.
\<close>

theorem unsplit_cidr_not_reported:
  "dict_get lazy_rule ''direction'' JNull = JStr ''INGRESS'' \<and>
   select_ranges lazy_rule ''INGRESS'' = JArr [JStr ''10.0.0.0'', JStr ''1/2/3''] \<and>
   split_on CHR ''/'' ''10.0.0.0'' = [''10.0.0.0''] \<and>
   from_json (\<lambda>text. Some (JObj lazy_rule)) [] = Inr []"
  by code_simp

text \<open>
  C5, amended. The call fails when the text is not JSON, when the object has no
  \<^verbatim>\<open>direction\<close> key, and when an entry of the selected range list does not split
  into exactly two parts on the slash while the selected identifier list does not
  iterate to nothing.
\<close>

theorem from_json_failures:
  "(loads text = None \<longrightarrow> from_json loads text = Inl JSONDecodeError) \<and>
   (loads text = Some (JObj d) \<and> \<not> dict_has d ''direction'' \<longrightarrow>
      from_json loads text = Inl (AttributeError ''upper'')) \<and>
   (loads text = Some (JObj d) \<and> dict_get d ''direction'' JNull = JStr dir \<and>
    py_iter (select_ranges d dir) = Inr cs \<and> JStr s \<in> set cs \<and>
    length (split_on CHR ''/'' s) \<noteq> 2 \<and> py_iter (select_identifiers d) \<noteq> Inr [] \<longrightarrow>
      isl (from_json loads text))"
proof (intro conjI impI)
  assume "loads text = None"
  then show "from_json loads text = Inl JSONDecodeError"
    by (simp add: from_json_def)
next
  assume "loads text = Some (JObj d) \<and> \<not> dict_has d ''direction''"
  then show "from_json loads text = Inl (AttributeError ''upper'')"
    by (simp add: from_json_def from_json_dict_no_direction)
next
  assume h: "loads text = Some (JObj d) \<and> dict_get d ''direction'' JNull = JStr dir \<and>
    py_iter (select_ranges d dir) = Inr cs \<and> JStr s \<in> set cs \<and>
    length (split_on CHR ''/'' s) \<noteq> 2 \<and> py_iter (select_identifiers d) \<noteq> Inr []"
  then have "isl (from_json_dict d)"
    by (intro from_json_dict_unsplit_cidr [of d dir cs s]) simp_all
  with h show "isl (from_json loads text)"
    by (simp add: from_json_def)
qed

text \<open>
  A parser that rejects the text, one that returns the object without a direction, and
  one that returns the sample with a range entry lacking its slash.
\<close>

theorem from_json_failures_witness:
  "from_json (\<lambda>text. None) ''{'' = Inl JSONDecodeError \<and>
   from_json (\<lambda>text. Some (JObj targets_only_rule)) [] = Inl (AttributeError ''upper'') \<and>
   length (split_on CHR ''/'' ''10.128.0.0'') \<noteq> 2 \<and>
   isl (from_json (\<lambda>text. Some (JObj bad_cidr_rule)) [])"
proof -
  have 1: "from_json (\<lambda>text. None) ''{'' = Inl JSONDecodeError"
    by (rule from_json_failures [THEN conjunct1, rule_format]) (rule refl)
  have nd: "\<not> dict_has targets_only_rule ''direction''"
    by code_simp
  have 2: "from_json (\<lambda>text. Some (JObj targets_only_rule)) [] = Inl (AttributeError ''upper'')"
    by (rule from_json_failures [of _ _ targets_only_rule, THEN conjunct2, THEN conjunct1,
          rule_format])
       (simp add: nd)
  have dir: "dict_get bad_cidr_rule ''direction'' JNull = JStr ''INGRESS''"
    and cs: "py_iter (select_ranges bad_cidr_rule ''INGRESS'') =
               Inr [JStr ''10.0.0.0/8'', JStr ''10.128.0.0'']"
    and ids: "py_iter (select_identifiers bad_cidr_rule) \<noteq> Inr []"
    and bad: "length (split_on CHR ''/'' ''10.128.0.0'') \<noteq> 2"
    by code_simp+
  have 3: "isl (from_json (\<lambda>text. Some (JObj bad_cidr_rule)) [])"
    by (rule from_json_failures [of _ _ bad_cidr_rule "''INGRESS''"
          "[JStr ''10.0.0.0/8'', JStr ''10.128.0.0'']" "''10.128.0.0''",
          THEN conjunct2, THEN conjunct2, rule_format])
       (simp add: dir cs ids bad)
  from 1 2 bad 3 show ?thesis by (intro conjI)
qed

text \<open>
  C8, as stated, does not hold: the sample has neither target key, and the call fails
  at line 122 because \<^verbatim>\<open>sourceRanges\<close> is absent.
\<close>

theorem no_target_keys_can_fail:
  "\<not> dict_has sourcetag_rule ''targetServiceAccounts'' \<and>
   \<not> dict_has sourcetag_rule ''targetTags'' \<and>
   from_json_dict sourcetag_rule = Inl TypeErrorNotIterable"
  by code_simp

text \<open>
  C8, amended. Let the direction be a string and the selected range list iterate to
  strings. With neither target key the call returns the empty list. With neither
  \<^verbatim>\<open>allowed\<close> nor \<^verbatim>\<open>denied\<close> it returns the empty list too, provided the
  identifier list can be iterated and, unless it is empty, every range entry splits
  into exactly two parts. Every record of a successful call has action
  \<^verbatim>\<open>allowed\<close> and comes from an entry under \<^verbatim>\<open>allowed\<close> when that key is present,
  and has action \<^verbatim>\<open>denied\<close> and comes from an entry under \<^verbatim>\<open>denied\<close> when only that
  key is present.
\<close>

theorem silent_empty_output:
  assumes dir: "dict_get d ''direction'' JNull = JStr dir"
    and cs: "py_iter (select_ranges d dir) = Inr cs"
    and strs: "\<forall>c\<in>set cs. \<exists>s. c = JStr s"
  shows "(\<not> dict_has d ''targetServiceAccounts'' \<and> \<not> dict_has d ''targetTags'' \<longrightarrow>
            from_json_dict d = Inr []) \<and>
         (\<not> dict_has d ''allowed'' \<and> \<not> dict_has d ''denied'' \<and>
          py_iter (select_identifiers d) = Inr ids \<and>
          (ids = [] \<or> (\<forall>c\<in>set cs. \<exists>a b. split_cidr c = Inr [a, b])) \<longrightarrow>
            from_json_dict d = Inr []) \<and>
         (from_json_dict d = Inr rs \<and> r \<in> set rs \<longrightarrow>
            (dict_has d ''allowed'' \<longrightarrow>
               action r = ''allowed'' \<and>
               entry_taken_from r (dict_get d ''allowed'' (JArr []))) \<and>
            (\<not> dict_has d ''allowed'' \<and> dict_has d ''denied'' \<longrightarrow>
               action r = ''denied'' \<and>
               entry_taken_from r (dict_get d ''denied'' (JArr []))))"
proof (intro conjI impI)
  assume "\<not> dict_has d ''targetServiceAccounts'' \<and> \<not> dict_has d ''targetTags''"
  then have "py_iter (select_identifiers d) = Inr []"
    by (simp add: select_identifiers_absent)
  then show "from_json_dict d = Inr []"
    using dir cs strs by (rule from_json_dict_no_identifiers)
next
  assume h: "\<not> dict_has d ''allowed'' \<and> \<not> dict_has d ''denied'' \<and>
          py_iter (select_identifiers d) = Inr ids \<and>
          (ids = [] \<or> (\<forall>c\<in>set cs. \<exists>a b. split_cidr c = Inr [a, b]))"
  show "from_json_dict d = Inr []"
  proof (cases "ids = []")
    case True
    with h have "py_iter (select_identifiers d) = Inr []" by simp
    then show ?thesis using dir cs strs by (rule from_json_dict_no_identifiers)
  next
    case False
    with h have pairs: "\<forall>c\<in>set cs. \<exists>a b. split_cidr c = Inr [a, b]" by simp
    from h have na: "\<not> dict_has d ''allowed''" and nd: "\<not> dict_has d ''denied''"
      and ids: "py_iter (select_identifiers d) = Inr ids"
      by simp_all
    show ?thesis
      by (rule from_json_dict_no_permissions [OF na nd dir cs ids pairs])
  qed
next
  assume h: "from_json_dict d = Inr rs \<and> r \<in> set rs" and a: "dict_has d ''allowed''"
  from h have rs: "from_json_dict d = Inr rs" and r: "r \<in> set rs" by simp_all
  from a have sel: "select_action d = ''allowed''" by (simp add: select_action_def)
  from record_shared_values [OF rs r] sel show "action r = ''allowed''" by simp
  from record_entry_origin [OF rs r] sel
  show "entry_taken_from r (dict_get d ''allowed'' (JArr []))" by simp
next
  assume h: "from_json_dict d = Inr rs \<and> r \<in> set rs"
    and a: "\<not> dict_has d ''allowed'' \<and> dict_has d ''denied''"
  from h have rs: "from_json_dict d = Inr rs" and r: "r \<in> set rs" by simp_all
  from a have sel: "select_action d = ''denied''" by (simp add: select_action_def)
  from record_shared_values [OF rs r] sel show "action r = ''denied''" by simp
  from record_entry_origin [OF rs r] sel
  show "entry_taken_from r (dict_get d ''denied'' (JArr []))" by simp
qed

text \<open>
  The rule without targets and the rule without permissions return nothing; the
  records of the documentation sample are allowed, those of the egress sample denied.
\<close>

theorem silent_empty_output_witness:
  "from_json_dict untargeted_rule = Inr [] \<and>
   from_json_dict no_permission_rule = Inr [] \<and>
   length (projr (from_json_dict grpc_rule)) = 1 \<and>
   list_all (\<lambda>r. action r = ''allowed'' \<and>
               entry_taken_from r (dict_get grpc_rule ''allowed'' (JArr [])))
     (projr (from_json_dict grpc_rule)) \<and>
   length (projr (from_json_dict egress_rule)) = 2 \<and>
   list_all (\<lambda>r. action r = ''denied'' \<and>
               entry_taken_from r (dict_get egress_rule ''denied'' (JArr [])))
     (projr (from_json_dict egress_rule))"
proof -
  have udir: "dict_get untargeted_rule ''direction'' JNull = JStr ''INGRESS''"
    and ucs: "py_iter (select_ranges untargeted_rule ''INGRESS'') = Inr [JStr ''0.0.0.0/0'']"
    and ukeys: "\<not> dict_has untargeted_rule ''targetServiceAccounts'' \<and>
                \<not> dict_has untargeted_rule ''targetTags''"
    by code_simp+
  have ustrs: "\<forall>c\<in>set [JStr ''0.0.0.0/0'']. \<exists>s. c = JStr s"
    by simp
  have 1: "from_json_dict untargeted_rule = Inr []"
    by (rule silent_empty_output [OF udir ucs ustrs, THEN conjunct1, rule_format, OF ukeys])
  have ndir: "dict_get no_permission_rule ''direction'' JNull = JStr ''INGRESS''"
    and ncs: "py_iter (select_ranges no_permission_rule ''INGRESS'') = Inr [JStr ''10.0.0.0/8'']"
    and nna: "\<not> dict_has no_permission_rule ''allowed''"
    and nnd: "\<not> dict_has no_permission_rule ''denied''"
    and nids: "py_iter (select_identifiers no_permission_rule) = Inr [JStr ''web'']"
    and nsplit: "split_cidr (JStr ''10.0.0.0/8'') = Inr [''10.0.0.0'', ''8'']"
    by code_simp+
  have nstrs: "\<forall>c\<in>set [JStr ''10.0.0.0/8'']. \<exists>s. c = JStr s"
    by simp
  from nsplit have npairs: "\<forall>c\<in>set [JStr ''10.0.0.0/8'']. \<exists>a b. split_cidr c = Inr [a, b]"
    by simp
  have 2: "from_json_dict no_permission_rule = Inr []"
    by (rule silent_empty_output [of no_permission_rule "''INGRESS''" "[JStr ''10.0.0.0/8'']"
          "[JStr ''web'']", OF ndir ncs nstrs, THEN conjunct2, THEN conjunct1, rule_format])
       (intro conjI disjI2 nna nnd nids npairs)
  have gdir: "dict_get grpc_rule ''direction'' JNull = JStr ''INGRESS''"
    and gcs: "py_iter (select_ranges grpc_rule ''INGRESS'') = Inr [JStr ''10.128.0.0/9'']"
    and ga: "dict_has grpc_rule ''allowed''"
    and g: "from_json_dict grpc_rule = Inr (projr (from_json_dict grpc_rule))"
    and gl: "length (projr (from_json_dict grpc_rule)) = 1"
    by code_simp+
  have gstrs: "\<forall>c\<in>set [JStr ''10.128.0.0/9'']. \<exists>s. c = JStr s"
    by simp
  have gr: "action r = ''allowed'' \<and> entry_taken_from r (dict_get grpc_rule ''allowed'' (JArr []))"
    if r: "r \<in> set (projr (from_json_dict grpc_rule))" for r
    by (rule silent_empty_output [OF gdir gcs gstrs, THEN conjunct2, THEN conjunct2,
          rule_format, THEN conjunct1, rule_format, OF conjI, OF g r ga])
  have edir: "dict_get egress_rule ''direction'' JNull = JStr ''egress''"
    and ecs: "py_iter (select_ranges egress_rule ''egress'') = Inr [JStr ''0.0.0.0/0'']"
    and ea: "\<not> dict_has egress_rule ''allowed'' \<and> dict_has egress_rule ''denied''"
    and e: "from_json_dict egress_rule = Inr (projr (from_json_dict egress_rule))"
    and el: "length (projr (from_json_dict egress_rule)) = 2"
    by code_simp+
  have estrs: "\<forall>c\<in>set [JStr ''0.0.0.0/0'']. \<exists>s. c = JStr s"
    by simp
  have er: "action r = ''denied'' \<and> entry_taken_from r (dict_get egress_rule ''denied'' (JArr []))"
    if r: "r \<in> set (projr (from_json_dict egress_rule))" for r
    by (rule silent_empty_output [OF edir ecs estrs, THEN conjunct2, THEN conjunct2,
          rule_format, THEN conjunct2, rule_format, OF conjI, OF e r ea])
  from gr have gr': "list_all (\<lambda>r. action r = ''allowed'' \<and>
      entry_taken_from r (dict_get grpc_rule ''allowed'' (JArr []))) (projr (from_json_dict grpc_rule))"
    unfolding list_all_iff by (rule ballI)
  from er have er': "list_all (\<lambda>r. action r = ''denied'' \<and>
      entry_taken_from r (dict_get egress_rule ''denied'' (JArr []))) (projr (from_json_dict egress_rule))"
    unfolding list_all_iff by (rule ballI)
  from 1 2 gl gr' el er' show ?thesis
    by (intro conjI)
qed

end
